theory Spec2Isabelle
  imports Complex_Main "HOL-Library.AList" "HOL-Library.Char_ord" "HOL-Library.List_Lexorder"
begin

section \<open>CkanGroupViewModel: a shallow embedding\<close>

text \<open>
  The development follows the CKAN group view model: \<open>_load\<close>,
  \<open>filterResultsByGetCapabilities\<close>, \<open>filterBasedOnGetCapabilities\<close>,
  \<open>filterBasedOnGetCapabilitiesResponse\<close>, \<open>populateGroupFromResults\<close> and
  \<open>cleanAndProxyUrl\<close>.

  Modelling conventions.
  \<^item> A string is a list of code units; a \<open>char\<close> holds the code units below 256,
    and \<open><\<close> on strings is the comparison by code units. The \<open>i\<close> flag of the two
    format regular expressions folds the ASCII letters only, as the language
    specifies for patterns of ASCII letters. \<open>String.prototype.toLowerCase\<close> and the
    coercion of text to a Number belong to the language: they are fields of the
    environment.
  \<^item> A property that may be \<open>undefined\<close> is an \<open>option\<close> (\<open>None\<close> is \<open>undefined\<close>);
    \<open>notes\<close>, which the source also compares with \<open>null\<close>, has three values.
  \<^item> A JavaScript object used as a dictionary is a map or an association list in
    insertion order (the order of \<open>for ... in\<close>); keys are the strings the
    property access converts them to. A key that collides with a member of
    \<open>Object.prototype\<close> is treated as any other key, with one exception that the
    model follows: a layer map with an own key \<open>hasOwnProperty\<close> makes the guard of
    its \<open>for ... in\<close> loop throw. The general theorems about the grouping carry the
    hypothesis that no key collides.
  \<^item> A Number is \<open>NaN\<close>, an infinity or a finite real (a double is one); the
    capability document holds text, which \<open>>=\<close> coerces to a Number.
  \<^item> The \<open>__filtered\<close> property that the capability filter adds to resource
    objects lives in an explicit store, indexed by the position of the resource in
    the merged result list (record index, resource index). Resource objects come
    fresh out of the JSON parser, so positions and objects correspond one to one.
  \<^item> A thrown exception is a value: \<open>Throw e s\<close> carries the state reached when
    \<open>e\<close> was thrown.
  \<^item> The libraries the file calls (URI, corsProxy, loadJson, loadText, xml2json) are
    fields of an environment record too, so every general theorem holds for any
    behaviour of theirs.
  \<^item> A promise that never settles is \<open>None\<close>; the order in which concurrently
    issued requests complete is an explicit schedule, a list of task indices.
\<close>

subsection \<open>JavaScript values\<close>

datatype error = TypeError | ViewModelError string string

datatype 'a res = Ok 'a | Throw error 'a

datatype 'a nullable = Undefined | Null | Val 'a

text \<open>A value of a parsed query string: \<open>null\<close> (a key with no \<open>=\<close>), a string, or
  an array when the key occurs several times. An absent key is \<open>None\<close>.\<close>

datatype qvalue = QNull | QStr string | QArr "string option list"

definition truthy_str :: "string option \<Rightarrow> bool" where
  "truthy_str s = (case s of None \<Rightarrow> False | Some t \<Rightarrow> t \<noteq> [])"

fun truthy_q :: "qvalue option \<Rightarrow> bool" where
  "truthy_q None = False"
| "truthy_q (Some QNull) = False"
| "truthy_q (Some (QStr s)) = (s \<noteq> [])"
| "truthy_q (Some (QArr xs)) = True"

fun join_comma :: "string option list \<Rightarrow> string" where
  "join_comma [] = []"
| "join_comma [x] = (case x of None \<Rightarrow> [] | Some s \<Rightarrow> s)"
| "join_comma (x # y # ys) = (case x of None \<Rightarrow> [] | Some s \<Rightarrow> s) @ '','' @ join_comma (y # ys)"

text \<open>The property key a value is converted to in \<open>obj[value]\<close>.\<close>

fun property_key :: "qvalue option \<Rightarrow> string" where
  "property_key None = ''undefined''"
| "property_key (Some QNull) = ''null''"
| "property_key (Some (QStr s)) = s"
| "property_key (Some (QArr xs)) = join_comma xs"


text \<open>Numbers, and \<open>a >= b\<close> on them: false as soon as one side is \<open>NaN\<close>.\<close>

datatype number = NaN | NegInfinity | Finite real | Infinity

fun number_ge :: "number \<Rightarrow> number \<Rightarrow> bool" where
  "number_ge NaN b = False"
| "number_ge a NaN = False"
| "number_ge Infinity b = True"
| "number_ge a NegInfinity = True"
| "number_ge NegInfinity b = False"
| "number_ge (Finite x) (Finite y) = (x \<ge> y)"
| "number_ge (Finite x) Infinity = False"

text \<open>The folding of the ASCII letters.\<close>

definition lower_char :: "char \<Rightarrow> char" where
  "lower_char c =
     (case map_of (zip ''ABCDEFGHIJKLMNOPQRSTUVWXYZ'' ''abcdefghijklmnopqrstuvwxyz'') c of
        None \<Rightarrow> c
      | Some l \<Rightarrow> l)"

definition asciiLower :: "string \<Rightarrow> string" where
  "asciiLower s = map lower_char s"

text \<open>\<open>/^wms$/i\<close> and \<open>/^esri rest$/i\<close>. Without the \<open>u\<close> flag a character outside
  ASCII never matches an ASCII letter of the pattern, so the match is equality after
  folding the ASCII letters.\<close>

definition wmsFormatRegex :: "string \<Rightarrow> bool" where
  "wmsFormatRegex s = (asciiLower s = ''wms'')"

definition esriRestFormatRegex :: "string \<Rightarrow> bool" where
  "esriRestFormatRegex s = (asciiLower s = ''esri rest'')"

subsection \<open>The CKAN search response\<close>

record ckan_resource =
  format :: string
  wms_url :: "string option"
  res_url :: "string option"

record ckan_group =
  display_name :: string

record ckan_organization =
  org_title :: "string option"
  org_description :: "string option"

record ckan_item =
  title :: string
  item_notes :: "string nullable"
  license_url :: "string option"
  extras :: "(string \<times> string) list option"
  geo_coverage :: "string option"
  resources :: "ckan_resource list"
  groups :: "ckan_group list"
  organization :: "ckan_organization option"

text \<open>\<open>json.result.results\<close>.\<close>

record search_json =
  results :: "ckan_item list"

subsection \<open>The capability document\<close>

text \<open>\<open>Capability.Layer\<close> as xml2json delivers it: one object for a single child
  element, an array for several. \<open>Name\<close> and \<open>MaxScaleDenominator\<close> are the text of
  their elements.\<close>

datatype layerSource =
  LayerSource (Name: "string option") (MaxScaleDenominator: "string option") (Layer: "layer_json option")
and layer_json = LObject layerSource | LArray "layerSource list"

subsection \<open>The environment\<close>

record corsProxy =
  shouldUseProxy :: "string \<Rightarrow> bool"
  getURL :: "string \<Rightarrow> string \<Rightarrow> string"

record env =
  URI_search :: "string \<Rightarrow> string \<Rightarrow> qvalue option"
  URI_without_search :: "string \<Rightarrow> string"
  module_corsProxy :: corsProxy
  application_corsProxy :: "corsProxy option"
  loadJson :: "string \<Rightarrow> search_json option"
  loadText :: "string \<Rightarrow> string option"
  xml2json_Capability_Layer :: "string \<Rightarrow> layer_json option option"
  toLowerCase :: "string \<Rightarrow> string"
  ToNumber :: "string \<Rightarrow> number"

text \<open>
  \<open>URI_search E u k\<close> is \<open>new URI(u).search(true)[k]\<close>; \<open>URI_without_search E u\<close> is
  the string of the URI after \<open>uri.search('')\<close>. \<open>loadJson\<close> and \<open>loadText\<close> give
  \<open>None\<close> when the request fails. \<open>xml2json_Capability_Layer E x\<close> is
  \<open>$.xml2json(x).Capability.Layer\<close>: \<open>None\<close> when evaluating it throws,
  \<open>Some None\<close> when it is \<open>undefined\<close>. \<open>toLowerCase E s\<close> is \<open>s.toLowerCase()\<close>, and
  \<open>ToNumber E t\<close> is the Number that the text \<open>t\<close> is coerced to.
\<close>

subsection \<open>The filtered flags\<close>

type_synonym addr = "nat \<times> nat"
type_synonym flags = "addr \<Rightarrow> bool option"

subsection \<open>filterBasedOnGetCapabilitiesResponse\<close>

text \<open>The test of one named layer against the resources of its server (the body of
  \<open>if (layerSource.Name)\<close>). The diagnostic \<open>console.log\<close> is not modelled.\<close>

definition scaleAllowed :: "env \<Rightarrow> number option \<Rightarrow> string option \<Rightarrow> bool" where
  "scaleAllowed E minimumMaxScaleDenominator msd =
     (case minimumMaxScaleDenominator of
        None \<Rightarrow> True
      | Some m \<Rightarrow> (case msd of None \<Rightarrow> True | Some t \<Rightarrow> number_ge (ToNumber E t) m))"

definition matchLayerName ::
  "env \<Rightarrow> number option \<Rightarrow> (string \<times> addr) list \<Rightarrow> string option \<Rightarrow> string option
     \<Rightarrow> flags \<Rightarrow> flags" where
  "matchLayerName E m rs nm msd fl =
     (case nm of
        None \<Rightarrow> fl
      | Some n \<Rightarrow>
          if n = [] then fl
          else (case map_of rs n of
                  None \<Rightarrow> fl
                | Some resource \<Rightarrow> if scaleAllowed E m msd then fl(resource := Some False) else fl))"

text \<open>The loop over \<open>wmsLayersSource\<close>, once it is an array, and its body.\<close>

fun walkLayer :: "env \<Rightarrow> number option \<Rightarrow> (string \<times> addr) list \<Rightarrow> layerSource \<Rightarrow> flags \<Rightarrow> flags"
and walkLayers :: "env \<Rightarrow> number option \<Rightarrow> (string \<times> addr) list \<Rightarrow> layerSource list \<Rightarrow> flags \<Rightarrow> flags"
where
  "walkLayer E m rs (LayerSource nm msd None) fl = matchLayerName E m rs nm msd fl"
| "walkLayer E m rs (LayerSource nm msd (Some (LObject l))) fl =
     walkLayers E m rs [l] (matchLayerName E m rs nm msd fl)"
| "walkLayer E m rs (LayerSource nm msd (Some (LArray ls))) fl =
     walkLayers E m rs ls (matchLayerName E m rs nm msd fl)"
| "walkLayers E m rs [] fl = fl"
| "walkLayers E m rs (l # ls) fl = walkLayers E m rs ls (walkLayer E m rs l fl)"

text \<open>The function itself: an \<open>undefined\<close> argument has no \<open>length\<close>; an object that
  is not an array becomes a one-element array.\<close>

fun filterBasedOnGetCapabilitiesResponse ::
  "env \<Rightarrow> number option \<Rightarrow> layer_json option \<Rightarrow> (string \<times> addr) list \<Rightarrow> flags \<Rightarrow> flags res" where
  "filterBasedOnGetCapabilitiesResponse E m None rs fl = Throw TypeError fl"
| "filterBasedOnGetCapabilitiesResponse E m (Some (LObject l)) rs fl = Ok (walkLayers E m rs [l] fl)"
| "filterBasedOnGetCapabilitiesResponse E m (Some (LArray ls)) rs fl = Ok (walkLayers E m rs ls fl)"

subsection \<open>filterBasedOnGetCapabilities\<close>

text \<open>The synchronous part: every resource of the server is assumed filtered. The
  guard of the loop calls \<open>resources.hasOwnProperty\<close>: when the layer map has an own
  key of that name, the value called is a resource, not a function, and the first
  round of the loop throws.\<close>

definition assumeFiltered :: "(string \<times> addr) list \<Rightarrow> flags \<Rightarrow> flags res" where
  "assumeFiltered rs fl =
     (if ''hasOwnProperty'' \<in> set (map fst rs) then Throw TypeError fl
      else Ok (fold (\<lambda>(name, resource) f. f(resource := Some True)) rs fl))"

text \<open>The part that runs when \<open>loadText\<close> settles: the \<open>then\<close> callback, and the
  \<open>otherwise\<close> callback that swallows a failed request and any exception of the
  \<open>then\<close> callback.\<close>

definition capabilitiesSettled ::
  "env \<Rightarrow> number option \<Rightarrow> string \<Rightarrow> (string \<times> addr) list \<Rightarrow> flags \<Rightarrow> flags" where
  "capabilitiesSettled E m getCapabilitiesUrl rs fl =
     (case loadText E getCapabilitiesUrl of
        None \<Rightarrow> fl
      | Some getCapabilitiesXml \<Rightarrow>
          (case xml2json_Capability_Layer E getCapabilitiesXml of
             None \<Rightarrow> fl
           | Some wmsLayersSource \<Rightarrow>
               (case filterBasedOnGetCapabilitiesResponse E m wmsLayersSource rs fl of
                  Ok fl' \<Rightarrow> fl'
                | Throw e fl' \<Rightarrow> fl')))"

text \<open>The whole function for one server, when nothing else runs in between.\<close>

definition filterBasedOnGetCapabilities ::
  "env \<Rightarrow> number option \<Rightarrow> string \<Rightarrow> (string \<times> addr) list \<Rightarrow> flags \<Rightarrow> flags res" where
  "filterBasedOnGetCapabilities E m getCapabilitiesUrl rs fl =
     (case assumeFiltered rs fl of
        Throw e fl' \<Rightarrow> Throw e fl'
      | Ok fl' \<Rightarrow> Ok (capabilitiesSettled E m getCapabilitiesUrl rs fl'))"

subsection \<open>filterResultsByGetCapabilities\<close>

type_synonym servers = "(string \<times> (string \<times> addr) list) list"

definition resourceUrl :: "ckan_resource \<Rightarrow> string option" where
  "resourceUrl resource = (case wms_url resource of Some u \<Rightarrow> Some u | None \<Rightarrow> res_url resource)"

text \<open>The resources of all records in the order in which the code visits them, each with
  its position.\<close>

definition addressedFrom :: "nat \<Rightarrow> ckan_item list \<Rightarrow> (addr \<times> ckan_resource) list" where
  "addressedFrom n xs =
     concat (map (\<lambda>(itemIndex, item).
                    map (\<lambda>(resourceIndex, resource). ((itemIndex, resourceIndex), resource))
                        (enumerate 0 (resources item)))
                 (enumerate n xs))"

definition allResources :: "ckan_item list \<Rightarrow> (addr \<times> ckan_resource) list" where
  "allResources xs = addressedFrom 0 xs"

text \<open>\<open>wmsServers[url][layerName] = resource\<close>, after \<open>wmsServers[url]\<close> has been
  made an object if it was not defined.\<close>

definition setServerLayer :: "string \<Rightarrow> string \<Rightarrow> addr \<Rightarrow> servers \<Rightarrow> servers" where
  "setServerLayer url layerName resource wmsServers =
     AList.update url
       (AList.update layerName resource
          (case map_of wmsServers url of None \<Rightarrow> [] | Some layers \<Rightarrow> layers))
       wmsServers"

text \<open>The body of the inner loop.\<close>

definition groupResource :: "env \<Rightarrow> servers \<Rightarrow> addr \<times> ckan_resource \<Rightarrow> servers" where
  "groupResource E wmsServers ar =
     (if \<not> wmsFormatRegex (format (snd ar)) then wmsServers
      else (case resourceUrl (snd ar) of
              None \<Rightarrow> wmsServers
            | Some wmsUrl \<Rightarrow>
                setServerLayer (URI_without_search E wmsUrl)
                  (property_key (URI_search E wmsUrl ''LAYERS'')) (fst ar) wmsServers))"

definition groupByServer :: "env \<Rightarrow> ckan_item list \<Rightarrow> servers" where
  "groupByServer E items = foldl (groupResource E) [] (allResources items)"

definition getCapabilitiesUrl :: "env \<Rightarrow> string \<Rightarrow> string" where
  "getCapabilitiesUrl E wmsServer =
     (let u = wmsServer @ ''?service=WMS&request=GetCapabilities''
      in if shouldUseProxy (module_corsProxy E) u then getURL (module_corsProxy E) u ''1d'' else u)"

text \<open>A schedule of \<open>n\<close> tasks: every task settles exactly once, in this order.\<close>

definition is_schedule :: "nat list \<Rightarrow> nat \<Rightarrow> bool" where
  "is_schedule sched n = (distinct sched \<and> set sched = set [0..<n])"

text \<open>The second loop calls \<open>filterBasedOnGetCapabilities\<close> for every server, which
  marks the resources and issues the request, or throws; the callbacks then run in
  the order in which the requests settle.\<close>

fun assumeAllFiltered :: "servers \<Rightarrow> flags \<Rightarrow> flags res" where
  "assumeAllFiltered [] fl = Ok fl"
| "assumeAllFiltered (ws # wmsServers) fl =
     (case assumeFiltered (snd ws) fl of
        Throw e fl' \<Rightarrow> Throw e fl'
      | Ok fl' \<Rightarrow> assumeAllFiltered wmsServers fl')"

definition settleServer :: "env \<Rightarrow> number option \<Rightarrow> servers \<Rightarrow> nat \<Rightarrow> flags \<Rightarrow> flags" where
  "settleServer E m wmsServers i fl =
     (if i < length wmsServers
      then capabilitiesSettled E m (getCapabilitiesUrl E (fst (wmsServers ! i))) (snd (wmsServers ! i)) fl
      else fl)"

definition filterResultsByGetCapabilities ::
  "env \<Rightarrow> number option \<Rightarrow> nat list \<Rightarrow> search_json option \<Rightarrow> flags \<Rightarrow> flags res option" where
  "filterResultsByGetCapabilities E m sched json fl =
     (case json of
        None \<Rightarrow> Some (Throw TypeError fl)
      | Some j \<Rightarrow>
          (let wmsServers = groupByServer E (results j)
           in case assumeAllFiltered wmsServers fl of
                Throw e fl' \<Rightarrow> Some (Throw e fl')
              | Ok fl' \<Rightarrow>
                  if is_schedule sched (length wmsServers)
                  then Some (Ok (fold (settleServer E m wmsServers) sched fl'))
                  else None))"

text \<open>The requests it issues, in order: one for every server, up to the server at
  which the loop throws.\<close>

definition capabilityRequests :: "env \<Rightarrow> search_json option \<Rightarrow> string list" where
  "capabilityRequests E json =
     (case json of
        None \<Rightarrow> []
      | Some j \<Rightarrow>
          map (\<lambda>ws. getCapabilitiesUrl E (fst ws))
              (takeWhile (\<lambda>ws. ''hasOwnProperty'' \<notin> set (map fst (snd ws)))
                         (groupByServer E (results j))))"

subsection \<open>The catalog tree\<close>

datatype item_class = WebMapServiceItemViewModel | ArcGisMapServerItemViewModel

datatype rectangle = Rectangle_fromDegrees string string string string

datatype catalog_item = CatalogItem
  (item_class: item_class)
  (item_name: string)
  (item_description: string)
  (item_url: string)
  (item_layers: "qvalue option")
  (item_rectangle: "rectangle option")
  (item_dataUrl: "string option")
  (item_dataUrlType: "string option")
  (item_parameters: "(string \<times> string) list option")
  (item_dataCustodian: "string option")

text \<open>A member of a group is a group (its name and its \<open>items\<close>) or an item.\<close>

datatype member = Group string "member list" | Item catalog_item

fun memberName :: "member \<Rightarrow> string" where
  "memberName (Group n ms) = n"
| "memberName (Item it) = item_name it"

record viewModel =
  url :: "string option"
  dataCustodian :: "string option"
  filterQuery :: "string list option"
  blacklist :: "(string \<rightharpoonup> bool) option"
  filterByWmsGetCapabilities :: bool
  minimumMaxScaleDenominator :: "number option"
  wmsParameters :: "(string \<times> string) list option"
  items :: "member list"

text \<open>Modelled from the spec: \<open>CatalogGroupViewModel\<close> is not among the sources. Its
  \<open>findFirstItemByName\<close> finds a direct child by its exact name, and its \<open>add\<close>
  appends a child. An item has no \<open>add\<close> and no \<open>items\<close>: calling \<open>add\<close> on
  one, or sorting its \<open>items\<close>, is a TypeError.\<close>

definition findFirstItemByName :: "member list \<Rightarrow> string \<Rightarrow> member option" where
  "findFirstItemByName ms n = find (\<lambda>m. memberName m = n) ms"

definition add :: "member list \<Rightarrow> member \<Rightarrow> member list" where
  "add ms m = ms @ [m]"

text \<open>\<open>existingGroup.add(newItem)\<close>, where \<open>existingGroup\<close> is the first child of that
  name.\<close>

fun addToExisting :: "string \<Rightarrow> member \<Rightarrow> member list \<Rightarrow> member list res" where
  "addToExisting n x [] = Ok []"
| "addToExisting n x (m # ms) =
     (if memberName m = n then
        (case m of
           Group g cs \<Rightarrow> Ok (Group g (add cs x) # ms)
         | Item it \<Rightarrow> Throw TypeError (m # ms))
      else (case addToExisting n x ms of
              Ok ms' \<Rightarrow> Ok (m # ms')
            | Throw e ms' \<Rightarrow> Throw e (m # ms')))"

subsection \<open>populateGroupFromResults\<close>

definition isBlacklisted :: "viewModel \<Rightarrow> string \<Rightarrow> bool" where
  "isBlacklisted vm n = (case blacklist vm of None \<Rightarrow> False | Some b \<Rightarrow> b n = Some True)"

text \<open>\<open>s.replace(/\\n/g, '<br/>')\<close> and \<open>s.indexOf(p) !== -1\<close>.\<close>

definition replaceNewlines :: "string \<Rightarrow> string" where
  "replaceNewlines s = concat (map (\<lambda>c. if c = CHR 0x0A then ''<br/>'' else [c]) s)"

fun containsString :: "string \<Rightarrow> string \<Rightarrow> bool" where
  "containsString p [] = (p = [])"
| "containsString p (c # cs) = (take (length p) (c # cs) = p \<or> containsString p cs)"

text \<open>The description; \<open>None\<close> is the TypeError of \<open>item.notes.indexOf\<close> on an
  \<open>undefined\<close> \<open>notes\<close>.\<close>

definition textDescription :: "ckan_item \<Rightarrow> string option" where
  "textDescription item =
     (let d = (case item_notes item of Val s \<Rightarrow> if s = [] then [] else replaceNewlines s | _ \<Rightarrow> [])
      in case license_url item of
           None \<Rightarrow> Some d
         | Some l \<Rightarrow>
             if l = [] then Some d
             else (case item_notes item of
                     Null \<Rightarrow> Some (d @ ''<br/>[Licence]('' @ l @ '')'')
                   | Undefined \<Rightarrow> None
                   | Val s \<Rightarrow>
                       if containsString ''[Licence]'' s then Some d
                       else Some (d @ ''<br/>[Licence]('' @ l @ '')'')))"

definition extrasOf :: "ckan_item \<Rightarrow> (string \<rightharpoonup> string)" where
  "extrasOf item =
     (case extras item of
        None \<Rightarrow> Map.empty
      | Some xs \<Rightarrow> fold (\<lambda>(k, v) m. m(k \<mapsto> v)) xs Map.empty)"

fun split :: "char \<Rightarrow> string \<Rightarrow> string list" where
  "split c [] = [] # []"
| "split c (x # xs) =
     (if x = c then [] # split c xs
      else (case split c xs of [] \<Rightarrow> [x] # [] | p # ps \<Rightarrow> (x # p) # ps))"

text \<open>\<open>var rectangle\<close> is declared in the loop body without an initialiser, so it
  keeps the value of the previous record when this one gives none.\<close>

definition rectangleOf :: "ckan_item \<Rightarrow> rectangle option \<Rightarrow> rectangle option" where
  "rectangleOf item rectangle =
     (let bboxString = (if truthy_str (geo_coverage item) then geo_coverage item
                        else extrasOf item ''geo_coverage'')
      in case bboxString of
           None \<Rightarrow> rectangle
         | Some b \<Rightarrow>
             (case split (CHR '','') b of
                [w, s, e, n] \<Rightarrow> Some (Rectangle_fromDegrees w s e n)
              | _ \<Rightarrow> rectangle))"

definition custodianOf :: "viewModel \<Rightarrow> ckan_item \<Rightarrow> string option" where
  "custodianOf vm item =
     (case dataCustodian vm of
        Some c \<Rightarrow> Some c
      | None \<Rightarrow>
          (case organization item of
             None \<Rightarrow> None
           | Some org \<Rightarrow>
               if truthy_str (org_title org)
               then (if truthy_str (org_description org) then org_description org else org_title org)
               else None))"

definition newItem ::
  "env \<Rightarrow> viewModel \<Rightarrow> ckan_item \<Rightarrow> string \<Rightarrow> rectangle option \<Rightarrow> ckan_resource \<Rightarrow> string
     \<Rightarrow> catalog_item" where
  "newItem E vm item description rectangle resource wmsUrl =
     CatalogItem
       (if esriRestFormatRegex (format resource) then ArcGisMapServerItemViewModel
        else WebMapServiceItemViewModel)
       (title item)
       description
       (URI_without_search E wmsUrl)
       (if truthy_q (URI_search E wmsUrl ''LAYERS'') then URI_search E wmsUrl ''LAYERS''
        else URI_search E wmsUrl ''layers'')
       rectangle
       (extrasOf item ''data_url'')
       (extrasOf item ''data_url_type'')
       (wmsParameters vm)
       (custodianOf vm item)"

text \<open>The loop over the groups of a record.\<close>

fun addToGroups :: "viewModel \<Rightarrow> catalog_item \<Rightarrow> ckan_group list \<Rightarrow> member list \<Rightarrow> member list res" where
  "addToGroups vm it [] ms = Ok ms"
| "addToGroups vm it (g # gs) ms =
     (if isBlacklisted vm (display_name g) then addToGroups vm it gs ms
      else (case addToExisting (display_name g) (Item it)
                   (case findFirstItemByName ms (display_name g) of
                      None \<Rightarrow> add ms (Group (display_name g) [])
                    | Some existingGroup \<Rightarrow> ms) of
              Ok ms' \<Rightarrow> addToGroups vm it gs ms'
            | Throw e ms' \<Rightarrow> Throw e ms'))"

text \<open>The body of the loop over the resources of a record.\<close>

definition populateResource ::
  "env \<Rightarrow> viewModel \<Rightarrow> flags \<Rightarrow> ckan_item \<Rightarrow> string \<Rightarrow> rectangle option
     \<Rightarrow> addr \<times> ckan_resource \<Rightarrow> member list \<Rightarrow> member list res" where
  "populateResource E vm fl item description rectangle ar ms =
     (if fl (fst ar) = Some True
         \<or> (\<not> wmsFormatRegex (format (snd ar)) \<and> \<not> esriRestFormatRegex (format (snd ar)))
      then Ok ms
      else (case resourceUrl (snd ar) of
              None \<Rightarrow> Ok ms
            | Some wmsUrl \<Rightarrow>
                addToGroups vm (newItem E vm item description rectangle (snd ar) wmsUrl) (groups item) ms))"

fun populateResources ::
  "env \<Rightarrow> viewModel \<Rightarrow> flags \<Rightarrow> ckan_item \<Rightarrow> string \<Rightarrow> rectangle option
     \<Rightarrow> (addr \<times> ckan_resource) list \<Rightarrow> member list \<Rightarrow> member list res" where
  "populateResources E vm fl item description rectangle [] ms = Ok ms"
| "populateResources E vm fl item description rectangle (ar # ars) ms =
     (case populateResource E vm fl item description rectangle ar ms of
        Ok ms' \<Rightarrow> populateResources E vm fl item description rectangle ars ms'
      | Throw e ms' \<Rightarrow> Throw e ms')"

text \<open>The loop over the records; its state is \<open>rectangle\<close> and the children of the
  root.\<close>

fun populateItems ::
  "env \<Rightarrow> viewModel \<Rightarrow> flags \<Rightarrow> (nat \<times> ckan_item) list \<Rightarrow> rectangle option \<Rightarrow> member list
     \<Rightarrow> member list res" where
  "populateItems E vm fl [] rectangle ms = Ok ms"
| "populateItems E vm fl ((itemIndex, item) # rest) rectangle ms =
     (if isBlacklisted vm (title item) then populateItems E vm fl rest rectangle ms
      else (case textDescription item of
              None \<Rightarrow> Throw TypeError ms
            | Some description \<Rightarrow>
                (case populateResources E vm fl item description (rectangleOf item rectangle)
                        (map (\<lambda>(resourceIndex, resource). ((itemIndex, resourceIndex), resource))
                             (enumerate 0 (resources item))) ms of
                   Ok ms' \<Rightarrow> populateItems E vm fl rest (rectangleOf item rectangle) ms'
                 | Throw e ms' \<Rightarrow> Throw e ms')))"

definition compareNames :: "env \<Rightarrow> member \<Rightarrow> member \<Rightarrow> int" where
  "compareNames E a b =
     (let aName = toLowerCase E (memberName a); bName = toLowerCase E (memberName b)
      in if aName < bName then - 1 else if aName > bName then 1 else 0)"

text \<open>\<open>Array.prototype.sort\<close> with a comparison function, as ECMAScript 2019
  specifies it: a stable sort. Here it is insertion sort.\<close>

fun insertBy :: "('a \<Rightarrow> 'a \<Rightarrow> int) \<Rightarrow> 'a \<Rightarrow> 'a list \<Rightarrow> 'a list" where
  "insertBy cmp x [] = [x]"
| "insertBy cmp x (y # ys) = (if cmp x y \<le> 0 then x # y # ys else y # insertBy cmp x ys)"

definition Array_sort :: "('a \<Rightarrow> 'a \<Rightarrow> int) \<Rightarrow> 'a list \<Rightarrow> 'a list" where
  "Array_sort cmp xs = foldr (insertBy cmp) xs []"

text \<open>The last loop: \<open>viewModel.items[i].items.sort(compareNames)\<close>.\<close>

fun sortChildren :: "env \<Rightarrow> member list \<Rightarrow> member list res" where
  "sortChildren E [] = Ok []"
| "sortChildren E (Group n cs # ms) =
     (case sortChildren E ms of
        Ok ms' \<Rightarrow> Ok (Group n (Array_sort (compareNames E) cs) # ms')
      | Throw e ms' \<Rightarrow> Throw e (Group n (Array_sort (compareNames E) cs) # ms'))"
| "sortChildren E (Item it # ms) = Throw TypeError (Item it # ms)"

definition populateGroupFromResults ::
  "env \<Rightarrow> viewModel \<Rightarrow> flags \<Rightarrow> search_json option \<Rightarrow> viewModel res" where
  "populateGroupFromResults E vm fl json =
     (case json of
        None \<Rightarrow> Throw TypeError vm
      | Some j \<Rightarrow>
          (case populateItems E vm fl (enumerate 0 (results j)) None (items vm) of
             Throw e ms \<Rightarrow> Throw e (vm\<lparr>items := ms\<rparr>)
           | Ok ms \<Rightarrow>
               (case sortChildren E (Array_sort (compareNames E) ms) of
                  Ok ms' \<Rightarrow> Ok (vm\<lparr>items := ms'\<rparr>)
                | Throw e ms' \<Rightarrow> Throw e (vm\<lparr>items := ms'\<rparr>))))"

subsection \<open>The promises of \<open>_load\<close>\<close>

text \<open>\<open>when.all\<close>: the promises settle in the order of the schedule. A fulfilled
  promise stores its value at its own index and counts down; the first rejection
  rejects the whole; with no promise at all the result is the empty array at once.
  \<open>None\<close>: the join never settles.\<close>

fun whenAllRun :: "(error + 'a) list \<Rightarrow> nat list \<Rightarrow> 'a option list \<Rightarrow> nat \<Rightarrow> (error + 'a list) option" where
  "whenAllRun ps [] rs toResolve = None"
| "whenAllRun ps (i # sched) rs toResolve =
     (if i < length ps then
        (case ps ! i of
           Inl e \<Rightarrow> Some (Inl e)
         | Inr v \<Rightarrow>
             (if toResolve - 1 = 0
              then (case those (rs[i := Some v]) of None \<Rightarrow> None | Some vs \<Rightarrow> Some (Inr vs))
              else whenAllRun ps sched (rs[i := Some v]) (toResolve - 1)))
      else whenAllRun ps sched rs toResolve)"

definition when_all :: "nat list \<Rightarrow> (error + 'a) list \<Rightarrow> (error + 'a list) option" where
  "when_all sched ps =
     (if ps = [] then Some (Inr [])
      else whenAllRun ps sched (replicate (length ps) None) (length ps))"

subsection \<open>\<open>_load\<close>\<close>

definition handleError_message :: string where
  \<open>handleError_message =
     ''    An error occurred while invoking package_search on the CKAN server'' @
     ''.      <p>If you entered the link manually, please verify that the lin'' @
     ''k is correct.</p>    <p>This error may also indicate that the server d'' @
     ''oes not support <a href="http://enable-cors.org/" target="_blank">CORS'' @
     ''</a>.  If this is your     server, verify that CORS is enabled and ena'' @
     ''ble it if it is not.  If you do not control the server,     please con'' @
     ''tact the administrator of the server and ask them to enable CORS.  Or,'' @
     '' contact the National     Map team by emailing <a href="mailto:nationa'' @
     ''lmap@lists.nicta.com.au">nationalmap@lists.nicta.com.au</a>     and as'' @
     ''k us to add this server to the list of non-CORS-supporting servers tha'' @
     ''t may be proxied by     National Map itself.</p>    <p>If you did not '' @
     ''enter this link manually, this error may indicate that the group you o'' @
     ''pened is temporarily unavailable or there is a     problem with your i'' @
     ''nternet connection.  Try opening the group again, and if the problem p'' @
     ''ersists, please report it by     sending an email to <a href="mailto:n'' @
     ''ationalmap@lists.nicta.com.au">nationalmap@lists.nicta.com.au</a>.</p>''\<close>

definition handleError :: error where
  "handleError = ViewModelError ''Group is not available'' handleError_message"

definition cleanAndProxyUrl :: "env \<Rightarrow> string \<Rightarrow> string" where
  "cleanAndProxyUrl E u =
     (let cleanedUrl = URI_without_search E u
      in case application_corsProxy E of
           None \<Rightarrow> cleanedUrl
         | Some p \<Rightarrow> if shouldUseProxy p cleanedUrl then getURL p cleanedUrl ''1d'' else cleanedUrl)"

definition searchUrl :: "env \<Rightarrow> string \<Rightarrow> string \<Rightarrow> string" where
  "searchUrl E u q = cleanAndProxyUrl E u @ ''/api/3/action/package_search?rows=100000&'' @ q"

text \<open>\<open>loadJson(url).otherwise(handleError)\<close>.\<close>

definition searchPromise :: "env \<Rightarrow> string \<Rightarrow> error + search_json" where
  "searchPromise E u = (case loadJson E u of None \<Rightarrow> Inl handleError | Some j \<Rightarrow> Inr j)"

text \<open>\<open>allResults\<close> after the merging loop; \<open>queryResults[0]\<close> of an empty array
  is \<open>undefined\<close>.\<close>

fun mergeResults :: "search_json list \<Rightarrow> search_json option" where
  "mergeResults [] = None"
| "mergeResults (q # qs) = Some (q\<lparr>results := foldl (\<lambda>acc r. acc @ results r) (results q) qs\<rparr>)"

text \<open>What the caller of \<open>_load\<close> sees: it returned \<open>undefined\<close>, it threw, or it
  returned a promise, which stays pending, is rejected or is fulfilled.\<close>

datatype outcome = ReturnedUndefined | Thrown error | Pending | Rejected error | Fulfilled

record load_result =
  outcome :: outcome
  model :: viewModel
  requests :: "string list"

text \<open>The callback of \<open>when.all(promises).then\<close>. \<open>when.all\<close> always delivers an
  array, so the callback's test of \<open>queryResults\<close> never returns early. \<open>schedC\<close> is
  the order in which the capability requests settle.\<close>

definition loaded :: "env \<Rightarrow> nat list \<Rightarrow> viewModel \<Rightarrow> string list \<Rightarrow> search_json list \<Rightarrow> load_result" where
  "loaded E schedC vm reqs queryResults =
     (let allResults = mergeResults queryResults
      in if filterByWmsGetCapabilities vm then
           (case filterResultsByGetCapabilities E (minimumMaxScaleDenominator vm) schedC allResults
                   (\<lambda>a. None) of
              None \<Rightarrow> \<lparr>outcome = Pending, model = vm, requests = reqs @ capabilityRequests E allResults\<rparr>
            | Some (Throw e fl) \<Rightarrow>
                \<lparr>outcome = Rejected e, model = vm, requests = reqs @ capabilityRequests E allResults\<rparr>
            | Some (Ok fl) \<Rightarrow>
                (case populateGroupFromResults E vm fl allResults of
                   Ok vm' \<Rightarrow>
                     \<lparr>outcome = Fulfilled, model = vm',
                      requests = reqs @ capabilityRequests E allResults\<rparr>
                 | Throw e vm' \<Rightarrow>
                     \<lparr>outcome = Rejected e, model = vm',
                      requests = reqs @ capabilityRequests E allResults\<rparr>))
         else
           (case populateGroupFromResults E vm (\<lambda>a. None) allResults of
              Ok vm' \<Rightarrow> \<lparr>outcome = Fulfilled, model = vm', requests = reqs\<rparr>
            | Throw e vm' \<Rightarrow> \<lparr>outcome = Rejected e, model = vm', requests = reqs\<rparr>))"

text \<open>\<open>schedQ\<close> is the order in which the search requests settle.\<close>

definition load :: "env \<Rightarrow> nat list \<Rightarrow> nat list \<Rightarrow> viewModel \<Rightarrow> load_result" where
  "load E schedQ schedC vm =
     (case url vm of
        None \<Rightarrow> \<lparr>outcome = ReturnedUndefined, model = vm, requests = []\<rparr>
      | Some u \<Rightarrow>
          if length u = 0 then \<lparr>outcome = ReturnedUndefined, model = vm, requests = []\<rparr>
          else
            (case filterQuery vm of
               None \<Rightarrow> \<lparr>outcome = Thrown TypeError, model = vm, requests = []\<rparr>
             | Some qs \<Rightarrow>
                 (let reqs = map (searchUrl E u) qs
                  in case when_all schedQ (map (searchPromise E) reqs) of
                       None \<Rightarrow> \<lparr>outcome = Pending, model = vm, requests = reqs\<rparr>
                     | Some (Inl e) \<Rightarrow> \<lparr>outcome = Rejected e, model = vm, requests = reqs\<rparr>
                     | Some (Inr queryResults) \<Rightarrow> loaded E schedC vm reqs queryResults)))"

subsection \<open>A model of the URI library\<close>

text \<open>For the examples: the query of a URL is the text between the first \<open>?\<close> and
  the fragment; it is cut at \<open>&\<close> into pieces, each cut at its first \<open>=\<close>.
  Percent-escapes are not decoded.\<close>

definition URI_query :: "string \<Rightarrow> string" where
  "URI_query u = drop 1 (dropWhile (\<lambda>c. c \<noteq> CHR ''?'') (takeWhile (\<lambda>c. c \<noteq> CHR ''#'') u))"

definition URI_parseQuery :: "string \<Rightarrow> (string \<times> string option) list" where
  "URI_parseQuery q =
     map (\<lambda>p. (takeWhile (\<lambda>c. c \<noteq> CHR ''='') p,
                if CHR ''='' \<in> set p then Some (drop 1 (dropWhile (\<lambda>c. c \<noteq> CHR ''='') p)) else None))
         (filter (\<lambda>p. p \<noteq> []) (split (CHR ''&'') (dropWhile (\<lambda>c. c = CHR ''?'') q)))"

definition URI_js_search :: "string \<Rightarrow> string \<Rightarrow> qvalue option" where
  "URI_js_search u k =
     (case map snd (filter (\<lambda>(n, v). n = k) (URI_parseQuery (URI_query u))) of
        [] \<Rightarrow> None
      | [None] \<Rightarrow> Some QNull
      | [Some s] \<Rightarrow> Some (QStr s)
      | vs \<Rightarrow> Some (QArr vs))"

text \<open>What follows \<open>://\<close>, if it occurs. A URL with an authority and no path gets
  the path \<open>/\<close>.\<close>

fun afterScheme :: "string \<Rightarrow> string option" where
  "afterScheme (a # b # c # cs) =
     (if a = CHR '':'' \<and> b = CHR ''/'' \<and> c = CHR ''/'' then Some cs else afterScheme (b # c # cs))"
| "afterScheme cs = None"

definition URI_js_without_search :: "string \<Rightarrow> string" where
  "URI_js_without_search u =
     (let beforeQuery = takeWhile (\<lambda>c. c \<noteq> CHR ''?'') (takeWhile (\<lambda>c. c \<noteq> CHR ''#'') u);
          fragment = dropWhile (\<lambda>c. c \<noteq> CHR ''#'') u
      in beforeQuery
         @ (case afterScheme beforeQuery of
              None \<Rightarrow> []
            | Some rest \<Rightarrow> if CHR ''/'' \<in> set rest then [] else ''/'')
         @ (if length fragment \<le> 1 then [] else fragment))"

subsection \<open>A model of the coercion to a Number\<close>

text \<open>For the examples: a text of decimal digits reads as the double nearest to the
  integer it denotes (ties to the even significand of 53 bits); the empty text reads
  as 0. Other texts are not covered and read as \<open>NaN\<close> here.\<close>

fun bitlen :: "nat \<Rightarrow> nat" where
  "bitlen n = (if n = 0 then 0 else Suc (bitlen (n div 2)))"

declare bitlen.simps [simp del]

definition roundToDouble :: "nat \<Rightarrow> nat" where
  "roundToDouble n =
     (if bitlen n \<le> 53 then n
      else (let e = bitlen n - 53; q = n div 2 ^ e; r = n mod 2 ^ e; h = 2 ^ (e - 1)
            in (if r > h \<or> (r = h \<and> odd q) then q + 1 else q) * 2 ^ e))"

definition digitValue :: "char \<Rightarrow> nat option" where
  "digitValue c = map_of (zip ''0123456789'' [0, 1, 2, 3, 4, 5, 6, 7, 8, 9]) c"

fun decimalValue :: "nat \<Rightarrow> string \<Rightarrow> nat option" where
  "decimalValue n [] = Some n"
| "decimalValue n (c # cs) =
     (case digitValue c of None \<Rightarrow> None | Some d \<Rightarrow> decimalValue (10 * n + d) cs)"

definition decimalToNumber :: "string \<Rightarrow> number" where
  "decimalToNumber t =
     (case decimalValue 0 t of
        None \<Rightarrow> NaN
      | Some n \<Rightarrow>
          if bitlen (roundToDouble n) \<le> 1024 then Finite (real (roundToDouble n)) else Infinity)"

subsection \<open>The example environment\<close>

text \<open>An environment for the examples: no proxy, the given answers of the search
  requests, of the capability requests and of the conversion of their answers, and for
  \<open>toLowerCase\<close> the folding of the ASCII letters, which is all it does on the names
  of the examples.\<close>

definition exampleEnv ::
  "(string \<Rightarrow> search_json option) \<Rightarrow> (string \<Rightarrow> string option)
     \<Rightarrow> (string \<Rightarrow> layer_json option option) \<Rightarrow> env" where
  "exampleEnv search text convert =
     \<lparr>URI_search = URI_js_search,
      URI_without_search = URI_js_without_search,
      module_corsProxy = \<lparr>shouldUseProxy = (\<lambda>u. False), getURL = (\<lambda>u c. u)\<rparr>,
      application_corsProxy = None,
      loadJson = search,
      loadText = text,
      xml2json_Capability_Layer = convert,
      toLowerCase = asciiLower,
      ToNumber = decimalToNumber\<rparr>"

subsection \<open>Notions for the statements\<close>

text \<open>The key by which \<open>compareNames\<close> compares, and what a stable sort by it
  achieves: the result is in order, and the members of each key are the same, in the
  same order, as before.\<close>

definition nameKey :: "env \<Rightarrow> member \<Rightarrow> string" where
  "nameKey E m = toLowerCase E (memberName m)"

definition stablySorted :: "env \<Rightarrow> member list \<Rightarrow> member list \<Rightarrow> bool" where
  "stablySorted E before after =
     (sorted (map (nameKey E) after)
      \<and> (\<forall>k. filter (\<lambda>m. nameKey E m = k) after = filter (\<lambda>m. nameKey E m = k) before))"

fun isGroup :: "member \<Rightarrow> bool" where
  "isGroup (Group n cs) = True"
| "isGroup (Item it) = False"

text \<open>A group before and after the sort of its children.\<close>

fun childrenSorted :: "env \<Rightarrow> member \<Rightarrow> member \<Rightarrow> bool" where
  "childrenSorted E (Group n cs) (Group n' cs') = (n' = n \<and> stablySorted E cs cs')"
| "childrenSorted E (Group n cs) (Item it) = False"
| "childrenSorted E (Item it) a = False"

text \<open>The ServerLayerKey of a resource: the endpoint and the layer-name key under
  which \<open>filterResultsByGetCapabilities\<close> groups it; none for a resource it skips.\<close>

definition serverLayerKey :: "env \<Rightarrow> ckan_resource \<Rightarrow> (string \<times> string) option" where
  "serverLayerKey E resource =
     (if wmsFormatRegex (format resource) then
        (case resourceUrl resource of
           None \<Rightarrow> None
         | Some wmsUrl \<Rightarrow>
             Some (URI_without_search E wmsUrl, property_key (URI_search E wmsUrl ''LAYERS'')))
      else None)"



text \<open>The nodes of a capability document in pre-order, and the resource whose flag
  a node clears, if any.\<close>

fun layerNodes :: "layerSource \<Rightarrow> layerSource list"
and layersNodes :: "layerSource list \<Rightarrow> layerSource list" where
  "layerNodes (LayerSource nm msd None) = [LayerSource nm msd None]"
| "layerNodes (LayerSource nm msd (Some (LObject l))) =
     LayerSource nm msd (Some (LObject l)) # layersNodes [l]"
| "layerNodes (LayerSource nm msd (Some (LArray ls))) =
     LayerSource nm msd (Some (LArray ls)) # layersNodes ls"
| "layersNodes [] = []"
| "layersNodes (l # ls) = layerNodes l @ layersNodes ls"

fun documentNodes :: "layer_json \<Rightarrow> layerSource list" where
  "documentNodes (LObject l) = layersNodes [l]"
| "documentNodes (LArray ls) = layersNodes ls"

text \<open>The resource that a node matches by name.\<close>

definition matchedBy :: "(string \<times> addr) list \<Rightarrow> layerSource \<Rightarrow> addr option" where
  "matchedBy rs node =
     (case Name node of
        None \<Rightarrow> None
      | Some n \<Rightarrow> if n = [] then None else map_of rs n)"

definition clearedBy :: "env \<Rightarrow> number option \<Rightarrow> (string \<times> addr) list \<Rightarrow> layerSource \<Rightarrow> addr option" where
  "clearedBy E m rs node =
     (if scaleAllowed E m (MaxScaleDenominator node) then matchedBy rs node else None)"

definition clearNode :: "env \<Rightarrow> number option \<Rightarrow> (string \<times> addr) list \<Rightarrow> layerSource \<Rightarrow> flags \<Rightarrow> flags" where
  "clearNode E m rs node fl =
     (case clearedBy E m rs node of None \<Rightarrow> fl | Some a \<Rightarrow> fl(a := Some False))"

text \<open>The resources whose flags the answer to a capability request clears.\<close>

definition serverCleared :: "env \<Rightarrow> number option \<Rightarrow> string \<Rightarrow> (string \<times> addr) list \<Rightarrow> addr set" where
  "serverCleared E m u rs =
     (case loadText E u of
        None \<Rightarrow> {}
      | Some x \<Rightarrow>
          (case xml2json_Capability_Layer E x of
             Some (Some doc) \<Rightarrow> {a. \<exists>node\<in>set (documentNodes doc). clearedBy E m rs node = Some a}
           | _ \<Rightarrow> {}))"

text \<open>The capability request of a URL fails, or the conversion of its answer
  throws.\<close>

definition capabilityUnavailable :: "env \<Rightarrow> string \<Rightarrow> bool" where
  "capabilityUnavailable E u =
     (case loadText E u of
        None \<Rightarrow> True
      | Some x \<Rightarrow> xml2json_Capability_Layer E x = None)"






subsection \<open>Example inputs\<close>

definition rainfall :: ckan_item where
  "rainfall =
     \<lparr>title = ''Rainfall'', item_notes = Null, license_url = None, extras = None,
      geo_coverage = None,
      resources = [\<lparr>format = ''WMS'', wms_url = None,
                    res_url = Some ''http://s/wms?LAYERS=rain&x=1''\<rparr>],
      groups = [\<lparr>display_name = ''Climate''\<rparr>],
      organization = None\<rparr>"

definition snowfall :: ckan_item where
  "snowfall =
     \<lparr>title = ''Snowfall'', item_notes = Null, license_url = None, extras = None,
      geo_coverage = None,
      resources = [\<lparr>format = ''WMS'', wms_url = None,
                    res_url = Some ''http://s/wms?LAYERS=snow''\<rparr>],
      groups = [\<lparr>display_name = ''Climate''\<rparr>],
      organization = None\<rparr>"

text \<open>A record in three groups, and the items made from the resources.\<close>

definition threeGroups :: ckan_item where
  "threeGroups =
     \<lparr>title = ''Rainfall'', item_notes = Null, license_url = None, extras = None,
      geo_coverage = None,
      resources = [\<lparr>format = ''WMS'', wms_url = None,
                    res_url = Some ''http://s/wms?LAYERS=rain&x=1''\<rparr>],
      groups = [\<lparr>display_name = ''Water''\<rparr>, \<lparr>display_name = ''apple''\<rparr>, \<lparr>display_name = ''Apple''\<rparr>],
      organization = None\<rparr>"

definition rainfallItem :: catalog_item where
  "rainfallItem = CatalogItem WebMapServiceItemViewModel ''Rainfall'' [] ''http://s/wms''
                         (Some (QStr ''rain'')) None None None None None"

definition snowfallItem :: catalog_item where
  "snowfallItem = CatalogItem WebMapServiceItemViewModel ''Snowfall'' [] ''http://s/wms''
                         (Some (QStr ''snow'')) None None None None None"

definition exampleViewModel :: viewModel where
  "exampleViewModel =
     \<lparr>url = Some ''http://ckan'', dataCustodian = None, filterQuery = Some [''q=a'', ''q=b''],
      blacklist = None, filterByWmsGetCapabilities = False, minimumMaxScaleDenominator = None,
      wmsParameters = None, items = []\<rparr>"

definition nothing :: "string \<Rightarrow> 'a option" where
  "nothing u = None"

text \<open>The two search requests of the example view model.\<close>

definition queryA :: string where
  "queryA = ''http://ckan//api/3/action/package_search?rows=100000&q=a''"

definition queryB :: string where
  "queryB = ''http://ckan//api/3/action/package_search?rows=100000&q=b''"

text \<open>A server that answers both queries, and one that answers only the first.\<close>

definition answerBoth :: "string \<Rightarrow> search_json option" where
  "answerBoth u =
     (if u = queryA then Some \<lparr>results = [rainfall]\<rparr>
      else if u = queryB then Some \<lparr>results = [snowfall]\<rparr>
      else None)"

definition answerFirst :: "string \<Rightarrow> search_json option" where
  "answerFirst u = (if u = queryA then Some \<lparr>results = [rainfall]\<rparr> else None)"




text \<open>Only the server \<open>w\<close> answers the capability request; the answer converts to
  a root layer without a name that holds the layers \<open>ls\<close>.\<close>

definition onlyServer :: "string \<Rightarrow> string \<Rightarrow> string option" where
  "onlyServer w u =
     (if u = w @ ''?service=WMS&request=GetCapabilities'' then Some ''capabilities.xml'' else None)"

definition layersDocument :: "layerSource list \<Rightarrow> string \<Rightarrow> layer_json option option" where
  "layersDocument ls x =
     (if x = ''capabilities.xml''
      then Some (Some (LObject (LayerSource None None (Some (LArray ls)))))
      else None)"

definition namedLayer :: "string \<Rightarrow> string option \<Rightarrow> layerSource" where
  "namedLayer n msd = LayerSource (Some n) msd None"

text \<open>A server that gives the same record to both queries, and one that gives the
  record of the layer called \<open>undefined\<close> to the first and no record to the second.\<close>

definition answerTwice :: "string \<Rightarrow> search_json option" where
  "answerTwice u =
     (if u = queryA \<or> u = queryB then Some \<lparr>results = [rainfall]\<rparr> else None)"


text \<open>Environments: two records of one layer that the server does not list; the same
  two records and a server that does not answer; a record with a lower-case
  parameter whose layer the server lists; a record whose layer is called
  \<open>undefined\<close> and a server that lists it; a server that lists a layer with a scale;
  one that gives as its scale the text of 9007199254740996 - 1; one that lists a
  layer twice, with two scales.\<close>

definition sameLayerEnv :: env where
  "sameLayerEnv = exampleEnv answerTwice (onlyServer ''http://s/wms'') (layersDocument [namedLayer ''snow'' None])"

definition failingEnv :: env where
  "failingEnv = exampleEnv answerTwice nothing nothing"






section \<open>Properties\<close>

subsection \<open>The example environment\<close>

lemma exampleEnv_simps:
  "URI_search (exampleEnv s t c) = URI_js_search"
  "URI_without_search (exampleEnv s t c) = URI_js_without_search"
  "application_corsProxy (exampleEnv s t c) = None"
  "shouldUseProxy (module_corsProxy (exampleEnv s t c)) u = False"
  "loadJson (exampleEnv s t c) = s"
  "loadText (exampleEnv s t c) = t"
  "xml2json_Capability_Layer (exampleEnv s t c) = c"
  "toLowerCase (exampleEnv s t c) = asciiLower"
  "ToNumber (exampleEnv s t c) = decimalToNumber"
  by (simp_all add: exampleEnv_def)

lemma URI_rain:
  "URI_js_search ''http://s/wms?LAYERS=rain&x=1'' ''LAYERS'' = Some (QStr ''rain'')"
  "URI_js_without_search ''http://s/wms?LAYERS=rain&x=1'' = ''http://s/wms''"
  by (simp_all add: URI_js_search_def URI_parseQuery_def URI_query_def URI_js_without_search_def)

lemma URI_snow:
  "URI_js_search ''http://s/wms?LAYERS=snow'' ''LAYERS'' = Some (QStr ''snow'')"
  "URI_js_without_search ''http://s/wms?LAYERS=snow'' = ''http://s/wms''"
  by (simp_all add: URI_js_search_def URI_parseQuery_def URI_query_def URI_js_without_search_def)

lemma URI_ckan: "URI_js_without_search ''http://ckan'' = ''http://ckan/''"
  by (simp add: URI_js_without_search_def)

lemma searchUrl_example:
  "searchUrl (exampleEnv s t c) ''http://ckan'' q
     = ''http://ckan//api/3/action/package_search?rows=100000&'' @ q"
  by (simp add: searchUrl_def cleanAndProxyUrl_def exampleEnv_simps URI_ckan)

lemma format_WMS: "wmsFormatRegex ''WMS''" "\<not> esriRestFormatRegex ''WMS''"
  by (simp_all add: wmsFormatRegex_def esriRestFormatRegex_def asciiLower_def lower_char_def)

lemma Array_sort_single: "Array_sort cmp [x] = [x]"
  by (simp add: Array_sort_def)

subsection \<open>Joining promises\<close>

lemma those_map_Some: "those (map Some vs) = Some vs"
  by (induction vs) simp_all

lemma whenAllRun_fulfilled:
  assumes "length ps = length vs" and "\<forall>i<length vs. ps ! i = Inr (vs ! i)"
    and "distinct sched" and "set sched \<inter> D = {}" and "set sched \<union> D = {0..<length vs}"
    and "rs = map (\<lambda>i. if i \<in> D then Some (vs ! i) else None) [0..<length vs]"
    and "toResolve = length sched" and "sched \<noteq> []"
  shows "whenAllRun ps sched rs toResolve = Some (Inr vs)"
  using assms
proof (induction sched arbitrary: D rs toResolve)
  case Nil
  then show ?case by simp
next
  case (Cons i sched)
  have i: "i < length vs" using Cons.prems(5) by auto
  have pi: "ps ! i = Inr (vs ! i)" using Cons.prems(2) i by simp
  let ?D = "insert i D"
  have upd: "rs[i := Some (vs ! i)] = map (\<lambda>j. if j \<in> ?D then Some (vs ! j) else None) [0..<length vs]"
    using Cons.prems(6) i by (auto intro!: nth_equalityI simp: nth_list_update)
  show ?case
  proof (cases "sched = []")
    case True
    then have "?D = {0..<length vs}" using Cons.prems(5) by auto
    then have "rs[i := Some (vs ! i)] = map Some vs"
      using upd by (auto intro!: nth_equalityI)
    then show ?thesis
      using True i pi Cons.prems(1,7) by (simp add: those_map_Some)
  next
    case False
    have "whenAllRun ps sched (rs[i := Some (vs ! i)]) (length sched) = Some (Inr vs)"
    proof (rule Cons.IH)
      show "set sched \<inter> ?D = {}" using Cons.prems(3,4) by auto
      show "set sched \<union> ?D = {0..<length vs}" using Cons.prems(5) by auto
    qed (use Cons.prems upd False in auto)
    then show ?thesis
      using False i pi Cons.prems(1,7) by simp
  qed
qed

lemma when_all_fulfilled:
  assumes "length ps = length vs" and "\<forall>i<length vs. ps ! i = Inr (vs ! i)"
    and "is_schedule sched (length vs)"
  shows "when_all sched ps = Some (Inr vs)"
proof (cases "vs = []")
  case True
  then show ?thesis using assms(1) by (simp add: when_all_def)
next
  case False
  have d: "distinct sched" and s: "set sched = {0..<length vs}"
    using assms(3) by (simp_all add: is_schedule_def)
  have l: "length sched = length vs"
    using d s by (metis distinct_card card_atLeastLessThan diff_zero)
  have ne: "sched \<noteq> []" using l False by auto
  have "whenAllRun ps sched (replicate (length vs) None) (length sched) = Some (Inr vs)"
    by (rule whenAllRun_fulfilled [where D = "{}"])
       (use assms d s ne in \<open>auto intro!: nth_equalityI\<close>)
  then show ?thesis using False assms(1) l by (auto simp: when_all_def)
qed

lemma whenAllRun_rejected:
  assumes "k \<in> set sched" and "k < length ps" and "ps ! k = Inl e"
    and same: "\<And>i e'. i < length ps \<Longrightarrow> ps ! i = Inl e' \<Longrightarrow> e' = e"
    and "length sched \<le> toResolve"
  shows "whenAllRun ps sched rs toResolve = Some (Inl e)"
  using assms(1,5)
proof (induction sched arbitrary: rs toResolve)
  case Nil
  then show ?case by simp
next
  case (Cons i sched)
  show ?case
  proof (cases "i < length ps")
    case False
    then have "k \<in> set sched" using Cons.prems(1) assms(2) by auto
    then have "whenAllRun ps sched rs toResolve = Some (Inl e)"
      using Cons.IH Cons.prems(2) by simp
    then show ?thesis using False by simp
  next
    case True
    show ?thesis
    proof (cases "ps ! i")
      case (Inl e')
      then have "e' = e" using same True by blast
      then show ?thesis using True Inl by simp
    next
      case (Inr v)
      then have "k \<noteq> i" using assms(3) by auto
      then have k: "k \<in> set sched" using Cons.prems(1) by simp
      then have "sched \<noteq> []" by auto
      then have nz: "toResolve - 1 \<noteq> 0" using Cons.prems(2) by (cases sched) auto
      have "length sched \<le> toResolve - 1" using Cons.prems(2) by simp
      then have "whenAllRun ps sched (rs[i := Some v]) (toResolve - 1) = Some (Inl e)"
        using Cons.IH k by blast
      then show ?thesis using True Inr nz by simp
    qed
  qed
qed

lemma when_all_rejected:
  assumes "k < length ps" and "ps ! k = Inl e"
    and "\<forall>i<length ps. \<forall>e'. ps ! i = Inl e' \<longrightarrow> e' = e"
    and "is_schedule sched (length ps)"
  shows "when_all sched ps = Some (Inl e)"
proof -
  have d: "distinct sched" and s: "set sched = {0..<length ps}"
    using assms(4) by (simp_all add: is_schedule_def)
  have l: "length sched = length ps"
    using d s by (metis distinct_card card_atLeastLessThan diff_zero)
  have "whenAllRun ps sched (replicate (length ps) None) (length ps) = Some (Inl e)"
  proof (rule whenAllRun_rejected [where k = k])
    show "k \<in> set sched" using s assms(1) by simp
    show "\<And>i e'. i < length ps \<Longrightarrow> ps ! i = Inl e' \<Longrightarrow> e' = e" using assms(3) by blast
  qed (use assms(1,2) l in simp_all)
  moreover have "ps \<noteq> []" using assms(1) by auto
  ultimately show ?thesis by (simp add: when_all_def)
qed

lemma foldl_append_results:
  "foldl (\<lambda>acc r. acc @ results r) acc qs = acc @ concat (map results qs)"
  by (induction qs arbitrary: acc) simp_all

lemma mergeResults_concat:
  "qs \<noteq> [] \<Longrightarrow> \<exists>m. mergeResults qs = Some m \<and> results m = concat (map results qs)"
  by (cases qs) (simp_all add: foldl_append_results)

subsection \<open>Loading\<close>

text \<open>
  C10. With an endpoint URL that is undefined or the empty string, \<open>_load\<close>
  returns \<open>undefined\<close> at once: no request is issued, nothing is thrown and the
  view model, with its tree, is as it was.
\<close>

theorem load_without_url:
  "url vm = None \<or> url vm = Some [] \<Longrightarrow>
   load E schedQ schedC vm = \<lparr>outcome = ReturnedUndefined, model = vm, requests = []\<rparr>"
  by (auto simp: load_def)

theorem load_without_url_witness:
  "load (exampleEnv answerBoth nothing nothing) [0, 1] [] (exampleViewModel\<lparr>url := Some []\<rparr>)
     = \<lparr>outcome = ReturnedUndefined, model = exampleViewModel\<lparr>url := Some []\<rparr>, requests = []\<rparr>"
  using load_without_url [of "exampleViewModel\<lparr>url := Some []\<rparr>"] by simp

text \<open>
  C2. With an empty list of filter queries and a non-empty endpoint URL no request
  is issued and the tree gains no children, but the run does not complete without
  an error: \<open>queryResults[0]\<close> is \<open>undefined\<close>, reading \<open>json.result\<close> of it is a
  TypeError, and the promise that \<open>_load\<close> returned is rejected with it.
\<close>

theorem load_no_filterQuery_rejected:
  "load (exampleEnv answerBoth nothing nothing) [] [] (exampleViewModel\<lparr>filterQuery := Some []\<rparr>)
     = \<lparr>outcome = Rejected TypeError, model = exampleViewModel\<lparr>filterQuery := Some []\<rparr>,
        requests = []\<rparr>"
  by (simp add: load_def exampleViewModel_def when_all_def loaded_def populateGroupFromResults_def)

text \<open>
  C4. With two or more filter queries whose requests all succeed, whatever the
  order in which the requests complete, \<open>when.all\<close> delivers the answers in the
  order of the filter queries, and the rest of the run is the capability filter (when
  it is enabled) and the tree builder applied to the one record list that is the
  concatenation of the answers' record lists in that order.
\<close>

theorem merged_in_declaration_order:
  assumes "url vm = Some u" and "u \<noteq> []" and "filterQuery vm = Some qs" and "2 \<le> length qs"
    and "length answers = length qs"
    and "\<forall>i<length qs. loadJson E (searchUrl E u (qs ! i)) = Some (answers ! i)"
    and "is_schedule schedQ (length qs)"
  shows "when_all schedQ (map (searchPromise E) (map (searchUrl E u) qs)) = Some (Inr answers)
       \<and> load E schedQ schedC vm
           = (if filterByWmsGetCapabilities vm then
                (case filterResultsByGetCapabilities E (minimumMaxScaleDenominator vm) schedC
                        (Some \<lparr>results = concat (map results answers)\<rparr>) (\<lambda>a. None) of
                   None \<Rightarrow>
                     \<lparr>outcome = Pending, model = vm,
                      requests = map (searchUrl E u) qs
                        @ capabilityRequests E (Some \<lparr>results = concat (map results answers)\<rparr>)\<rparr>
                 | Some (Throw e fl) \<Rightarrow>
                     \<lparr>outcome = Rejected e, model = vm,
                      requests = map (searchUrl E u) qs
                        @ capabilityRequests E (Some \<lparr>results = concat (map results answers)\<rparr>)\<rparr>
                 | Some (Ok fl) \<Rightarrow>
                     (case populateGroupFromResults E vm fl
                             (Some \<lparr>results = concat (map results answers)\<rparr>) of
                        Ok vm' \<Rightarrow>
                          \<lparr>outcome = Fulfilled, model = vm',
                           requests = map (searchUrl E u) qs
                             @ capabilityRequests E (Some \<lparr>results = concat (map results answers)\<rparr>)\<rparr>
                      | Throw e vm' \<Rightarrow>
                          \<lparr>outcome = Rejected e, model = vm',
                           requests = map (searchUrl E u) qs
                             @ capabilityRequests E (Some \<lparr>results = concat (map results answers)\<rparr>)\<rparr>))
              else
                (case populateGroupFromResults E vm (\<lambda>a. None)
                        (Some \<lparr>results = concat (map results answers)\<rparr>) of
                   Ok vm' \<Rightarrow> \<lparr>outcome = Fulfilled, model = vm', requests = map (searchUrl E u) qs\<rparr>
                 | Throw e vm' \<Rightarrow> \<lparr>outcome = Rejected e, model = vm', requests = map (searchUrl E u) qs\<rparr>))"
proof -
  have w: "when_all schedQ (map (searchPromise E) (map (searchUrl E u) qs)) = Some (Inr answers)"
    by (rule when_all_fulfilled) (use assms in \<open>auto simp: searchPromise_def\<close>)
  have "answers \<noteq> []" using assms(4,5) by auto
  then have m: "mergeResults answers = Some \<lparr>results = concat (map results answers)\<rparr>"
    by (cases answers) (simp_all add: foldl_append_results)
  have "load E schedQ schedC vm = loaded E schedC vm (map (searchUrl E u) qs) answers"
    using w assms(1-3) by (simp add: load_def)
  then show ?thesis using w m by (simp add: loaded_def Let_def)
qed

lemma sort_rain_snow:
  "Array_sort (compareNames (exampleEnv s t c)) [Item rainfallItem, Item snowfallItem]
     = [Item rainfallItem, Item snowfallItem]"
  by (simp add: Array_sort_def compareNames_def exampleEnv_simps asciiLower_def lower_char_def
      rainfallItem_def snowfallItem_def less_char_def)

theorem merged_in_declaration_order_witness:
  "when_all [1, 0] (map (searchPromise (exampleEnv answerBoth nothing nothing))
        (map (searchUrl (exampleEnv answerBoth nothing nothing) ''http://ckan'') [''q=a'', ''q=b'']))
     = Some (Inr [\<lparr>results = [rainfall]\<rparr>, \<lparr>results = [snowfall]\<rparr>])
   \<and> load (exampleEnv answerBoth nothing nothing) [1, 0] [] exampleViewModel
       = \<lparr>outcome = Fulfilled,
          model = exampleViewModel\<lparr>items := [Group ''Climate'' [Item rainfallItem, Item snowfallItem]]\<rparr>,
          requests = [queryA, queryB]\<rparr>"
proof -
  let ?E = "exampleEnv answerBoth nothing nothing"
  have p: "populateGroupFromResults ?E exampleViewModel (\<lambda>a. None) (Some \<lparr>results = [rainfall, snowfall]\<rparr>)
       = Ok (exampleViewModel\<lparr>items := [Group ''Climate'' [Item rainfallItem, Item snowfallItem]]\<rparr>)"
    using sort_rain_snow [of answerBoth nothing nothing, unfolded rainfallItem_def snowfallItem_def]
    by (simp add: populateGroupFromResults_def isBlacklisted_def populateResource_def resourceUrl_def
        format_WMS newItem_def URI_rain URI_snow findFirstItemByName_def add_def Array_sort_single
        rectangleOf_def extrasOf_def truthy_str_def textDescription_def custodianOf_def
        rainfall_def snowfall_def rainfallItem_def snowfallItem_def exampleViewModel_def exampleEnv_simps)
  have h: "\<forall>i<length [''q=a'', ''q=b''].
      loadJson ?E (searchUrl ?E ''http://ckan'' ([''q=a'', ''q=b''] ! i))
        = Some ([\<lparr>results = [rainfall]\<rparr>, \<lparr>results = [snowfall]\<rparr>] ! i)"
    by (simp add: searchUrl_example exampleEnv_simps answerBoth_def queryA_def queryB_def
        numeral_2_eq_2 All_less_Suc)
  have s: "is_schedule [1, 0] (length [''q=a'', ''q=b''])" by (auto simp: is_schedule_def)
  have f: "\<not> filterByWmsGetCapabilities exampleViewModel" by (simp add: exampleViewModel_def)
  have q: "map (searchUrl ?E ''http://ckan'') [''q=a'', ''q=b''] = [queryA, queryB]"
    by (simp add: searchUrl_example queryA_def queryB_def)
  from merged_in_declaration_order [of exampleViewModel "''http://ckan''" "[''q=a'', ''q=b'']"
      "[\<lparr>results = [rainfall]\<rparr>, \<lparr>results = [snowfall]\<rparr>]" ?E "[1, 0]" "[]", OF _ _ _ _ _ h s]
  show ?thesis using p f q by (simp add: exampleViewModel_def)
qed

text \<open>
  C7. If one of the search requests fails, the promise of \<open>_load\<close> is rejected with
  the one error of \<open>handleError\<close>, whose title and message are fixed, and the view
  model, with its tree, is as it was: the callback that builds the tree never runs.
\<close>

theorem search_failure_rejects:
  assumes "url vm = Some u" and "u \<noteq> []" and "filterQuery vm = Some qs"
    and "i < length qs" and "loadJson E (searchUrl E u (qs ! i)) = None"
    and "is_schedule schedQ (length qs)"
  shows "load E schedQ schedC vm
         = \<lparr>outcome = Rejected handleError, model = vm, requests = map (searchUrl E u) qs\<rparr>"
proof -
  have "when_all schedQ (map (searchPromise E) (map (searchUrl E u) qs)) = Some (Inl handleError)"
    by (rule when_all_rejected [where k = i])
       (use assms in \<open>auto simp: searchPromise_def split: option.splits\<close>)
  then show ?thesis using assms(1-3) by (simp add: load_def)
qed

theorem search_failure_rejects_witness:
  "load (exampleEnv answerFirst nothing nothing) [0, 1] [] exampleViewModel
     = \<lparr>outcome = Rejected handleError, model = exampleViewModel,
        requests = [''http://ckan//api/3/action/package_search?rows=100000&q=a'',
                    ''http://ckan//api/3/action/package_search?rows=100000&q=b'']\<rparr>"
  using search_failure_rejects [of exampleViewModel "''http://ckan''" "[''q=a'', ''q=b'']" 1
      "exampleEnv answerFirst nothing nothing" "[0, 1]" "[]"]
  by (simp add: exampleViewModel_def searchUrl_example exampleEnv_simps answerFirst_def queryA_def
      is_schedule_def numeral_2_eq_2 insert_commute)

subsection \<open>Building the tree\<close>

text \<open>
  C8. One record titled "Rainfall" with the one WMS resource
  \<open>http://s/wms?LAYERS=rain&x=1\<close> and the one group "Climate", no blacklist, no
  bounding box, no filtered flag set, an empty root: the root gets exactly one
  group, "Climate", with exactly one item, a WMS item named "Rainfall" whose url is
  \<open>http://s/wms\<close> and whose layers are \<open>rain\<close>.
\<close>

theorem rainfall_tree:
  assumes "title item = ''Rainfall''"
    and "resources item = [\<lparr>format = ''WMS'', wms_url = None,
                             res_url = Some ''http://s/wms?LAYERS=rain&x=1''\<rparr>]"
    and "groups item = [\<lparr>display_name = ''Climate''\<rparr>]"
    and "geo_coverage item = None" and "extras item = None"
    and "textDescription item = Some d"
    and "blacklist vm = None" and "items vm = []"
    and "URI_search E = URI_js_search" and "URI_without_search E = URI_js_without_search"
  shows "populateGroupFromResults E vm (\<lambda>a. None) (Some \<lparr>results = [item]\<rparr>)
         = Ok (vm\<lparr>items :=
                 [Group ''Climate''
                    [Item (CatalogItem WebMapServiceItemViewModel ''Rainfall'' d ''http://s/wms''
                             (Some (QStr ''rain'')) None None None
                             (wmsParameters vm) (custodianOf vm item))]]\<rparr>)"
  using assms
  by (simp add: populateGroupFromResults_def isBlacklisted_def populateResource_def resourceUrl_def
      format_WMS newItem_def URI_rain findFirstItemByName_def add_def Array_sort_single
      rectangleOf_def extrasOf_def truthy_str_def)

theorem rainfall_tree_witness:
  "populateGroupFromResults (exampleEnv nothing nothing nothing) exampleViewModel (\<lambda>a. None)
       (Some \<lparr>results = [rainfall]\<rparr>)
     = Ok (exampleViewModel\<lparr>items :=
             [Group ''Climate''
                [Item (CatalogItem WebMapServiceItemViewModel ''Rainfall'' [] ''http://s/wms''
                         (Some (QStr ''rain'')) None None None None None)]]\<rparr>)"
  using rainfall_tree [of rainfall "[]" exampleViewModel "exampleEnv nothing nothing nothing"]
  by (simp add: rainfall_def exampleViewModel_def exampleEnv_simps textDescription_def
      truthy_str_def custodianOf_def)

subsection \<open>Sorting the tree\<close>

lemma compareNames_le: "compareNames E a b \<le> 0 \<longleftrightarrow> nameKey E a \<le> nameKey E b"
  by (auto simp: compareNames_def nameKey_def Let_def)

lemma insertBy_compareNames: "insertBy (compareNames E) x ys = insort_key (nameKey E) x ys"
  by (induction ys) (simp_all add: compareNames_le)

lemma Array_sort_compareNames: "Array_sort (compareNames E) xs = sort_key (nameKey E) xs"
  by (induction xs) (simp_all add: Array_sort_def insertBy_compareNames)

lemma stablySorted_Array_sort: "stablySorted E xs (Array_sort (compareNames E) xs)"
  by (simp add: stablySorted_def Array_sort_compareNames sort_key_stable)

lemma addToExisting_groups:
  "list_all isGroup ms \<Longrightarrow> \<exists>ms'. addToExisting n x ms = Ok ms' \<and> list_all isGroup ms'"
proof (induction ms)
  case Nil
  then show ?case by simp
next
  case (Cons m ms)
  then obtain g cs where m: "m = Group g cs" by (cases m) auto
  from Cons obtain ms' where "addToExisting n x ms = Ok ms'" "list_all isGroup ms'" by auto
  then show ?case using m Cons.prems by simp
qed

lemma addToGroups_groups:
  "list_all isGroup ms \<Longrightarrow> \<exists>ms'. addToGroups vm it gs ms = Ok ms' \<and> list_all isGroup ms'"
proof (induction gs arbitrary: ms)
  case Nil
  then show ?case by simp
next
  case (Cons g gs)
  let ?ms1 = "case findFirstItemByName ms (display_name g) of
                None \<Rightarrow> add ms (Group (display_name g) []) | Some existingGroup \<Rightarrow> ms"
  have "list_all isGroup ?ms1"
    using Cons.prems by (simp add: add_def split: option.split)
  from addToExisting_groups [OF this]
  obtain ms2 where a: "addToExisting (display_name g) (Item it) ?ms1 = Ok ms2" and g2: "list_all isGroup ms2"
    by blast
  show ?case
  proof (cases "isBlacklisted vm (display_name g)")
    case True
    then show ?thesis using Cons.IH [OF Cons.prems] by simp
  next
    case False
    then show ?thesis using a Cons.IH [OF g2] by simp
  qed
qed

lemma populateResources_groups:
  "list_all isGroup ms \<Longrightarrow>
   \<exists>ms'. populateResources E vm fl item d r ars ms = Ok ms' \<and> list_all isGroup ms'"
proof (induction ars arbitrary: ms)
  case Nil
  then show ?case by simp
next
  case (Cons ar ars)
  have "\<exists>ms1. populateResource E vm fl item d r ar ms = Ok ms1 \<and> list_all isGroup ms1"
    using Cons.prems addToGroups_groups [OF Cons.prems]
    by (simp add: populateResource_def split: option.split)
  then obtain ms1 where "populateResource E vm fl item d r ar ms = Ok ms1" "list_all isGroup ms1"
    by blast
  then show ?case using Cons.IH [of ms1] by simp
qed

lemma populateItems_groups:
  "list_all isGroup ms \<Longrightarrow>
   \<forall>p\<in>set xs. \<not> isBlacklisted vm (title (snd p)) \<longrightarrow> textDescription (snd p) \<noteq> None \<Longrightarrow>
   \<exists>ms'. populateItems E vm fl xs r ms = Ok ms' \<and> list_all isGroup ms'"
proof (induction xs arbitrary: r ms)
  case Nil
  then show ?case by simp
next
  case (Cons x xs)
  obtain i item where x: "x = (i, item)" by (cases x)
  show ?case
  proof (cases "isBlacklisted vm (title item)")
    case True
    then show ?thesis using Cons x by simp
  next
    case False
    then obtain d where d: "textDescription item = Some d" using Cons.prems(2) x by auto
    from populateResources_groups [OF Cons.prems(1)]
    obtain ms1 where "populateResources E vm fl item d (rectangleOf item r)
        (map (\<lambda>(resourceIndex, resource). ((i, resourceIndex), resource)) (enumerate 0 (resources item))) ms = Ok ms1"
      and "list_all isGroup ms1" by blast
    then show ?thesis using False d x Cons.IH [of ms1] Cons.prems(2) by simp
  qed
qed

lemma sortChildren_groups:
  "list_all isGroup ms \<Longrightarrow> \<exists>ms'. sortChildren E ms = Ok ms' \<and> list_all2 (childrenSorted E) ms ms'"
proof (induction ms)
  case Nil
  then show ?case by simp
next
  case (Cons m ms)
  then obtain g cs where m: "m = Group g cs" by (cases m) auto
  from Cons obtain ms' where "sortChildren E ms = Ok ms'" "list_all2 (childrenSorted E) ms ms'" by auto
  then show ?case using m by (simp add: stablySorted_Array_sort)
qed

lemma childrenSorted_nameKey: "childrenSorted E b a \<Longrightarrow> nameKey E a = nameKey E b"
  by (cases b; cases a) (simp_all add: nameKey_def)

lemma list_all2_nameKey: "list_all2 (childrenSorted E) xs ys \<Longrightarrow> map (nameKey E) ys = map (nameKey E) xs"
  by (induction rule: list_all2_induct) (simp_all add: childrenSorted_nameKey)

text \<open>
  C5. When the children of the root are groups and no record's description throws,
  tree assembly completes, and then the children of the root are the stable sort, by
  lower-cased name, of the children built, and the children of each group are the
  stable sort, by lower-cased name, of the children it had: in order, and with
  members of equal key in their order of insertion. The group names "Water",
  "apple", "Apple" end as "apple", "Apple", "Water".
\<close>

theorem tree_sorted_stably:
  assumes "\<forall>m\<in>set (items vm). isGroup m"
    and "\<forall>item\<in>set (results j). \<not> isBlacklisted vm (title item) \<longrightarrow> textDescription item \<noteq> None"
  shows "\<exists>built sortedRoot vm'.
           populateItems E vm fl (enumerate 0 (results j)) None (items vm) = Ok built
         \<and> populateGroupFromResults E vm fl (Some j) = Ok vm'
         \<and> stablySorted E built sortedRoot
         \<and> list_all2 (childrenSorted E) sortedRoot (items vm')
         \<and> sorted (map (nameKey E) (items vm'))"
proof -
  have g: "list_all isGroup (items vm)" using assms(1) by (simp add: list_all_iff)
  have "\<forall>p\<in>set (enumerate 0 (results j)).
          \<not> isBlacklisted vm (title (snd p)) \<longrightarrow> textDescription (snd p) \<noteq> None"
    using assms(2) by (auto simp: in_set_enumerate_eq)
  from populateItems_groups [OF g this]
  obtain built where b: "populateItems E vm fl (enumerate 0 (results j)) None (items vm) = Ok built"
    and gb: "list_all isGroup built" by blast
  let ?root = "Array_sort (compareNames E) built"
  have "list_all isGroup ?root"
    using gb by (simp add: Array_sort_compareNames list_all_iff)
  from sortChildren_groups [OF this]
  obtain ms' where s: "sortChildren E ?root = Ok ms'" and c: "list_all2 (childrenSorted E) ?root ms'"
    by blast
  have st: "stablySorted E built ?root" by (rule stablySorted_Array_sort)
  have "sorted (map (nameKey E) ms')"
    using list_all2_nameKey [OF c] st by (simp add: stablySorted_def)
  then show ?thesis using b s c st
    by (simp add: populateGroupFromResults_def) blast
qed

lemma lower_examples:
  "asciiLower ''Water'' = ''water''" "asciiLower ''apple'' = ''apple''" "asciiLower ''Apple'' = ''apple''"
  by (simp_all add: asciiLower_def lower_char_def)

lemma sort_example:
  "Array_sort (compareNames (exampleEnv s t c))
       [Group ''Water'' [Item x], Group ''apple'' [Item y], Group ''Apple'' [Item z]]
    = [Group ''apple'' [Item y], Group ''Apple'' [Item z], Group ''Water'' [Item x]]"
  by (simp add: Array_sort_def compareNames_def exampleEnv_simps lower_examples less_char_def)

theorem tree_sorted_stably_witness:
  "populateGroupFromResults (exampleEnv nothing nothing nothing) exampleViewModel (\<lambda>a. None)
       (Some \<lparr>results = [threeGroups]\<rparr>)
     = Ok (exampleViewModel\<lparr>items :=
             [Group ''apple'' [Item rainfallItem], Group ''Apple'' [Item rainfallItem],
              Group ''Water'' [Item rainfallItem]]\<rparr>)
   \<and> (\<exists>built sortedRoot vm'.
           populateItems (exampleEnv nothing nothing nothing) exampleViewModel (\<lambda>a. None)
               (enumerate 0 (results \<lparr>results = [threeGroups]\<rparr>)) None (items exampleViewModel) = Ok built
         \<and> populateGroupFromResults (exampleEnv nothing nothing nothing) exampleViewModel (\<lambda>a. None)
               (Some \<lparr>results = [threeGroups]\<rparr>) = Ok vm'
         \<and> stablySorted (exampleEnv nothing nothing nothing) built sortedRoot
         \<and> list_all2 (childrenSorted (exampleEnv nothing nothing nothing)) sortedRoot (items vm')
         \<and> sorted (map (nameKey (exampleEnv nothing nothing nothing)) (items vm')))"
proof -
  have "\<forall>m\<in>set (items exampleViewModel). isGroup m"
    by (simp add: exampleViewModel_def)
  moreover have "\<forall>item\<in>set (results \<lparr>results = [threeGroups]\<rparr>).
      \<not> isBlacklisted exampleViewModel (title item) \<longrightarrow> textDescription item \<noteq> None"
    by (simp add: threeGroups_def textDescription_def truthy_str_def)
  ultimately have "\<exists>built sortedRoot vm'.
           populateItems (exampleEnv nothing nothing nothing) exampleViewModel (\<lambda>a. None)
               (enumerate 0 (results \<lparr>results = [threeGroups]\<rparr>)) None (items exampleViewModel) = Ok built
         \<and> populateGroupFromResults (exampleEnv nothing nothing nothing) exampleViewModel (\<lambda>a. None)
               (Some \<lparr>results = [threeGroups]\<rparr>) = Ok vm'
         \<and> stablySorted (exampleEnv nothing nothing nothing) built sortedRoot
         \<and> list_all2 (childrenSorted (exampleEnv nothing nothing nothing)) sortedRoot (items vm')
         \<and> sorted (map (nameKey (exampleEnv nothing nothing nothing)) (items vm'))"
    by (rule tree_sorted_stably)
  moreover have "populateGroupFromResults (exampleEnv nothing nothing nothing) exampleViewModel (\<lambda>a. None)
       (Some \<lparr>results = [threeGroups]\<rparr>)
     = Ok (exampleViewModel\<lparr>items :=
             [Group ''apple'' [Item rainfallItem], Group ''Apple'' [Item rainfallItem],
              Group ''Water'' [Item rainfallItem]]\<rparr>)"
    by (simp add: populateGroupFromResults_def isBlacklisted_def populateResource_def resourceUrl_def
      format_WMS newItem_def URI_rain findFirstItemByName_def add_def sort_example Array_sort_single
      rectangleOf_def extrasOf_def truthy_str_def threeGroups_def exampleViewModel_def exampleEnv_simps
      textDescription_def custodianOf_def rainfallItem_def)
  ultimately show ?thesis by blast
qed

subsection \<open>The capability filter\<close>

lemma matchLayerName_clearedBy:
  "matchLayerName E m rs (Name node) (MaxScaleDenominator node) fl = clearNode E m rs node fl"
  by (simp add: matchLayerName_def clearNode_def clearedBy_def matchedBy_def split: option.splits)

lemma walk_fold:
  "walkLayer E m rs l fl = fold (clearNode E m rs) (layerNodes l) fl"
  "walkLayers E m rs ls fl = fold (clearNode E m rs) (layersNodes ls) fl"
proof (induction E m rs l fl and E m rs ls fl rule: walkLayer_walkLayers.induct)
  case (1 E m rs nm msd fl)
  show ?case using matchLayerName_clearedBy [of E m rs "LayerSource nm msd None" fl]
    by simp
next
  case (2 E m rs nm msd l fl)
  show ?case using 2 matchLayerName_clearedBy [of E m rs "LayerSource nm msd (Some (LObject l))" fl]
    by simp
next
  case (3 E m rs nm msd ls fl)
  show ?case using 3 matchLayerName_clearedBy [of E m rs "LayerSource nm msd (Some (LArray ls))" fl]
    by simp
next
  case (4 E m rs fl)
  show ?case by simp
next
  case (5 E m rs l ls fl)
  then show ?case by simp
qed

lemma fold_clearNode:
  "fold (clearNode E m rs) nodes fl a
     = (if \<exists>node\<in>set nodes. clearedBy E m rs node = Some a then Some False else fl a)"
proof (induction nodes arbitrary: fl)
  case Nil
  show ?case by simp
next
  case (Cons node nodes)
  show ?case
    by (simp add: Cons.IH) (auto simp: clearNode_def split: option.splits)
qed

lemma capabilitiesSettled_apply:
  "capabilitiesSettled E m u rs fl a = (if a \<in> serverCleared E m u rs then Some False else fl a)"
proof (cases "loadText E u")
  case None
  then show ?thesis by (simp add: capabilitiesSettled_def serverCleared_def)
next
  case (Some x)
  show ?thesis
  proof (cases "xml2json_Capability_Layer E x")
    case None
    then show ?thesis using Some by (simp add: capabilitiesSettled_def serverCleared_def)
  next
    case outer: (Some L)
    show ?thesis
    proof (cases L)
      case None
      then show ?thesis using Some outer by (simp add: capabilitiesSettled_def serverCleared_def)
    next
      case inner: (Some doc)
      show ?thesis using Some outer inner
        by (cases doc) (simp_all add: capabilitiesSettled_def serverCleared_def walk_fold fold_clearNode)
    qed
  qed
qed




lemma serverCleared_unavailable: "capabilityUnavailable E u \<Longrightarrow> serverCleared E m u rs = {}"
  by (auto simp: serverCleared_def capabilityUnavailable_def split: option.splits)







subsection \<open>The examples of the coercion to a Number\<close>









subsection \<open>Grouping\<close>























subsection \<open>Settling\<close>











subsection \<open>The examples of the capability filter\<close>

lemma URI_examples:
  "URI_js_search ''http://s/wms?layers=rain'' ''LAYERS'' = None"
  "URI_js_search ''http://s/wms?layers=rain'' ''layers'' = Some (QStr ''rain'')"
  "URI_js_without_search ''http://s/wms?layers=rain'' = ''http://s/wms''"
  "URI_js_search ''http://s/wms?layers=undefined'' ''LAYERS'' = None"
  "URI_js_search ''http://s/wms?layers=undefined'' ''layers'' = Some (QStr ''undefined'')"
  "URI_js_without_search ''http://s/wms?layers=undefined'' = ''http://s/wms''"
  by (simp_all add: URI_js_search_def URI_parseQuery_def URI_query_def URI_js_without_search_def)

lemma getCapabilitiesUrl_example:
  "getCapabilitiesUrl (exampleEnv s t c) w = w @ ''?service=WMS&request=GetCapabilities''"
  by (simp add: getCapabilitiesUrl_def exampleEnv_simps)

lemma group_same:
  "groupByServer (exampleEnv s t c) [rainfall, rainfall] = [(''http://s/wms'', [(''rain'', (1, 0))])]"
  by (simp add: groupByServer_def allResources_def addressedFrom_def groupResource_def
      setServerLayer_def rainfall_def format_WMS resourceUrl_def exampleEnv_simps URI_rain)



lemma is_schedule_examples: "is_schedule [0] (Suc 0)" "is_schedule [1, 0] 2" "is_schedule [0, 1] 2"
  by (auto simp: is_schedule_def)

lemma colliding_key_throws:
  "''hasOwnProperty'' \<in> set (map fst rs) \<Longrightarrow>
   filterBasedOnGetCapabilities E m u rs fl = Throw TypeError fl"
  by (simp add: filterBasedOnGetCapabilities_def assumeFiltered_def)

lemmas populate_defs = populateGroupFromResults_def isBlacklisted_def populateResource_def resourceUrl_def
      format_WMS newItem_def URI_rain URI_examples findFirstItemByName_def add_def Array_sort_single
      rectangleOf_def extrasOf_def truthy_str_def textDescription_def custodianOf_def

lemmas settle_defs = filterResultsByGetCapabilities_def is_schedule_examples
      Let_def settleServer_def capabilitiesSettled_apply assumeFiltered_def
      serverCleared_def getCapabilitiesUrl_example exampleEnv_simps onlyServer_def layersDocument_def
      namedLayer_def clearedBy_def matchedBy_def scaleAllowed_def

lemma same_flags:
  "\<exists>fl. filterResultsByGetCapabilities sameLayerEnv None [0]
            (Some \<lparr>results = [rainfall, rainfall]\<rparr>) (\<lambda>a. None) = Some (Ok fl)
          \<and> fl (0, 0) = None \<and> fl (1, 0) = Some True"
  by (simp add: sameLayerEnv_def group_same settle_defs)

lemma failing_flags:
  "\<exists>fl. filterResultsByGetCapabilities failingEnv None [0]
            (Some \<lparr>results = [rainfall, rainfall]\<rparr>) (\<lambda>a. None) = Some (Ok fl)
          \<and> fl (0, 0) = None \<and> fl (1, 0) = Some True"
  by (simp add: failingEnv_def group_same settle_defs nothing_def)


lemma capabilityRequests_same:
  "capabilityRequests (exampleEnv s t c) (Some \<lparr>results = [rainfall, rainfall]\<rparr>)
     = [''http://s/wms?service=WMS&request=GetCapabilities'']"
  by (simp add: capabilityRequests_def group_same getCapabilitiesUrl_example)


lemma merged_twice:
  "load (exampleEnv answerTwice t c) [0, 1] sc (exampleViewModel\<lparr>filterByWmsGetCapabilities := True\<rparr>)
     = loaded (exampleEnv answerTwice t c) sc (exampleViewModel\<lparr>filterByWmsGetCapabilities := True\<rparr>)
         [queryA, queryB] [\<lparr>results = [rainfall]\<rparr>, \<lparr>results = [rainfall]\<rparr>]"
  by (simp add: load_def exampleViewModel_def searchUrl_example when_all_def searchPromise_def
      exampleEnv_simps answerTwice_def queryA_def queryB_def)


lemma loaded_filtered:
  assumes "filterByWmsGetCapabilities vm" and "mergeResults qr = Some j"
    and "filterResultsByGetCapabilities E (minimumMaxScaleDenominator vm) sc (Some j) (\<lambda>a. None) = Some (Ok fl)"
    and "populateGroupFromResults E vm fl (Some j) = Ok vm'"
  shows "loaded E sc vm reqs qr
         = \<lparr>outcome = Fulfilled, model = vm', requests = reqs @ capabilityRequests E (Some j)\<rparr>"
  using assms by (simp add: loaded_def Let_def)

lemma load_twice:
  assumes f: "filterResultsByGetCapabilities (exampleEnv answerTwice t c) None [0]
            (Some \<lparr>results = [rainfall, rainfall]\<rparr>) (\<lambda>a. None) = Some (Ok fl)"
    and v: "fl (0, 0) = None" "fl (1, 0) = Some True"
  shows "load (exampleEnv answerTwice t c) [0, 1] [0] (exampleViewModel\<lparr>filterByWmsGetCapabilities := True\<rparr>)
     = \<lparr>outcome = Fulfilled,
        model = exampleViewModel\<lparr>filterByWmsGetCapabilities := True,
                  items := [Group ''Climate'' [Item rainfallItem]]\<rparr>,
        requests = [queryA, queryB, ''http://s/wms?service=WMS&request=GetCapabilities'']\<rparr>"
proof -
  let ?E = "exampleEnv answerTwice t c"
  let ?vm = "exampleViewModel\<lparr>filterByWmsGetCapabilities := True\<rparr>"
  have p: "populateGroupFromResults ?E ?vm fl (Some \<lparr>results = [rainfall, rainfall]\<rparr>)
       = Ok (?vm\<lparr>items := [Group ''Climate'' [Item rainfallItem]]\<rparr>)"
    using v by (simp add: populate_defs exampleViewModel_def rainfall_def rainfallItem_def
        exampleEnv_simps)
  have "loaded ?E [0] ?vm [queryA, queryB] [\<lparr>results = [rainfall]\<rparr>, \<lparr>results = [rainfall]\<rparr>]
       = \<lparr>outcome = Fulfilled, model = ?vm\<lparr>items := [Group ''Climate'' [Item rainfallItem]]\<rparr>,
          requests = [queryA, queryB]
            @ capabilityRequests ?E (Some \<lparr>results = [rainfall, rainfall]\<rparr>)\<rparr>"
  proof (rule loaded_filtered [OF _ _ _ p])
    show "filterByWmsGetCapabilities ?vm" by simp
    show "mergeResults [\<lparr>results = [rainfall]\<rparr>, \<lparr>results = [rainfall]\<rparr>] = Some \<lparr>results = [rainfall, rainfall]\<rparr>"
      by simp
    show "filterResultsByGetCapabilities ?E (minimumMaxScaleDenominator ?vm) [0]
            (Some \<lparr>results = [rainfall, rainfall]\<rparr>) (\<lambda>a. None) = Some (Ok fl)"
      using f by (simp add: exampleViewModel_def)
  qed
  moreover have "load ?E [0, 1] [0] ?vm
       = loaded ?E [0] ?vm [queryA, queryB] [\<lparr>results = [rainfall]\<rparr>, \<lparr>results = [rainfall]\<rparr>]"
    by (rule merged_twice)
  ultimately show ?thesis by (simp add: capabilityRequests_same)
qed


text \<open>
  C1. Two records whose resources have the same URL, hence the same endpoint and
  layer name; the capability document does not list the layer. Only the second
  resource is held under the key: its flag ends true, the flag of the first is never
  set, and the tree gets the item of the first record.
\<close>

theorem same_key_resources_flagged_differently:
  "serverLayerKey sameLayerEnv (resources rainfall ! 0) = Some (''http://s/wms'', ''rain'')
   \<and> (\<exists>fl. filterResultsByGetCapabilities sameLayerEnv None [0]
              (Some \<lparr>results = [rainfall, rainfall]\<rparr>) (\<lambda>a. None) = Some (Ok fl)
            \<and> fl (0, 0) = None \<and> fl (1, 0) = Some True)
   \<and> items (model (load sameLayerEnv [0, 1] [0]
                        (exampleViewModel\<lparr>filterByWmsGetCapabilities := True\<rparr>)))
       = [Group ''Climate'' [Item rainfallItem]]"
proof -
  have k: "serverLayerKey sameLayerEnv (resources rainfall ! 0) = Some (''http://s/wms'', ''rain'')"
    by (simp add: serverLayerKey_def rainfall_def format_WMS resourceUrl_def sameLayerEnv_def
        exampleEnv_simps URI_rain)
  from same_flags obtain fl where f: "filterResultsByGetCapabilities sameLayerEnv None [0]
            (Some \<lparr>results = [rainfall, rainfall]\<rparr>) (\<lambda>a. None) = Some (Ok fl)"
    and v: "fl (0, 0) = None" "fl (1, 0) = Some True" by blast
  have "items (model (load sameLayerEnv [0, 1] [0] (exampleViewModel\<lparr>filterByWmsGetCapabilities := True\<rparr>)))
       = [Group ''Climate'' [Item rainfallItem]]"
    using load_twice [OF f [unfolded sameLayerEnv_def] v] by (simp add: sameLayerEnv_def)
  then show ?thesis using k same_flags by simp
qed

text \<open>
  C6. The server of the capability document does not answer. Two records have a
  resource of that endpoint, with the same layer name: only the second is held under
  the key and keeps the flag true; the flag of the first is never set and the tree
  gets its item. The failure itself is not surfaced: the promise of \<open>_load\<close> is
  fulfilled.
\<close>

theorem failing_endpoint_resource_kept:
  "capabilityUnavailable failingEnv (getCapabilitiesUrl failingEnv ''http://s/wms'')
   \<and> serverLayerKey failingEnv (resources rainfall ! 0) = Some (''http://s/wms'', ''rain'')
   \<and> groupByServer failingEnv [rainfall, rainfall] = [(''http://s/wms'', [(''rain'', (1, 0))])]
   \<and> (\<exists>fl. filterResultsByGetCapabilities failingEnv None [0]
              (Some \<lparr>results = [rainfall, rainfall]\<rparr>) (\<lambda>a. None) = Some (Ok fl)
            \<and> fl (0, 0) = None \<and> fl (1, 0) = Some True)
   \<and> load failingEnv [0, 1] [0] (exampleViewModel\<lparr>filterByWmsGetCapabilities := True\<rparr>)
       = \<lparr>outcome = Fulfilled,
          model = exampleViewModel\<lparr>filterByWmsGetCapabilities := True,
                    items := [Group ''Climate'' [Item rainfallItem]]\<rparr>,
          requests = [queryA, queryB, ''http://s/wms?service=WMS&request=GetCapabilities'']\<rparr>"
proof -
  have u: "capabilityUnavailable failingEnv (getCapabilitiesUrl failingEnv ''http://s/wms'')"
    by (simp add: capabilityUnavailable_def failingEnv_def exampleEnv_simps nothing_def)
  have k: "serverLayerKey failingEnv (resources rainfall ! 0) = Some (''http://s/wms'', ''rain'')"
    by (simp add: serverLayerKey_def rainfall_def format_WMS resourceUrl_def failingEnv_def
        exampleEnv_simps URI_rain)
  have g: "groupByServer failingEnv [rainfall, rainfall] = [(''http://s/wms'', [(''rain'', (1, 0))])]"
    by (simp add: failingEnv_def group_same)
  from failing_flags obtain fl where f: "filterResultsByGetCapabilities failingEnv None [0]
            (Some \<lparr>results = [rainfall, rainfall]\<rparr>) (\<lambda>a. None) = Some (Ok fl)"
    and v: "fl (0, 0) = None" "fl (1, 0) = Some True" by blast
  have "load failingEnv [0, 1] [0] (exampleViewModel\<lparr>filterByWmsGetCapabilities := True\<rparr>)
       = \<lparr>outcome = Fulfilled,
          model = exampleViewModel\<lparr>filterByWmsGetCapabilities := True,
                    items := [Group ''Climate'' [Item rainfallItem]]\<rparr>,
          requests = [queryA, queryB, ''http://s/wms?service=WMS&request=GetCapabilities'']\<rparr>"
    using load_twice [OF f [unfolded failingEnv_def] v] by (simp add: failingEnv_def)
  then show ?thesis using u k g failing_flags by simp
qed





end
